theory Spec2Isabelle
  imports Main "HOL-Library.Word"
begin

section \<open>The EVM categorizer manager (blockchain/evm/categorizer/manager.go)\<close>

text \<open>
  Block numbers are Go \<open>uint64\<close> values: 64-bit words, so that
  \<open>group.block_number + uint64(1)\<close> wraps and the comparisons are the unsigned ones.
\<close>

type_synonym uint64 = "64 word"

subsection \<open>Data\<close>

text \<open>
  Modelled from the spec: the types of the log, the smartcontract, the worker and the
  block are declared outside the sources. A log entry belongs to one smartcontract
  address and one block; a smartcontract has its address and its categorized block
  number (the watermark); a worker wraps one smartcontract, its ABI being opaque to the
  manager; a block has its network id, number, timestamp and logs. The field names are
  those the manager uses.
\<close>

record Log =
  LogAddress :: string
  LogBlockNumber :: uint64

record Smartcontract =
  Address :: string
  CategorizedBlockNumber :: uint64

record EvmWorker =
  smartcontract :: Smartcontract

record Block =
  NetworkId :: string
  BlockNumber :: uint64
  BlockTimestamp :: uint64
  Logs :: "Log list"

record OldWorkerGroup =
  block_number :: uint64
  workers :: "EvmWorker list"

text \<open>
  The request handed to \<open>manager.pusher.SendMessage\<close>: the parameters
  \<open>smartcontracts\<close> and \<open>logs\<close> of a \<open>message.Request\<close> with an empty command.
\<close>

record Push =
  push_smartcontracts :: "Smartcontract list"
  push_logs :: "Log list"

text \<open>
  The manager. \<open>old_categorizers\<close> is a slice of pointers to groups: the pointers are
  natural numbers and \<open>group_heap\<close> gives the group each one points to, since the
  catch-up engine of a group mutates it through its pointer while
  \<open>GetSmartcontractAddresses\<close> reads it through the slice. The two sockets are
  represented by what went through them: \<open>pusher\<close> is the list of requests sent to
  the result channel, \<open>remote_calls\<close> the list of \<open>RemoteLogFilter\<close> requests
  (from-block and addresses) made by the catch-up engines.
\<close>

record Manager =
  Network_Id :: string
  old_categorizers :: "nat list"
  group_heap :: "nat \<Rightarrow> OldWorkerGroup"
  current_workers :: "EvmWorker list"
  subscribed_earliest_block_number :: uint64
  subscribed_blocks :: "Block list"
  pusher :: "Push list"
  remote_calls :: "(uint64 \<times> string list) list"

text \<open>
  How an iteration of one of the manager's endless loops ends: it goes on to the next
  iteration, it leaves the loop (\<open>break\<close>), or the goroutine panics, which ends the
  process.
\<close>

datatype flow = Next | Break | Panic

subsection \<open>The block queue\<close>

text \<open>
  Modelled from the spec: the queue type \<open>data_type.Queue\<close> and
  \<open>spaghetti_block.NewBlock\<close> are not among the sources. The spec describes the Block
  Queue as an ordered, unbounded FIFO, so \<open>Push\<close> appends at the back; \<open>NewBlock\<close>
  makes the block of its four arguments.
\<close>

definition Push :: "Block list \<Rightarrow> Block \<Rightarrow> Block list" where
  "Push q b = q @ [b]"

definition NewBlock :: "string \<Rightarrow> uint64 \<Rightarrow> uint64 \<Rightarrow> Log list \<Rightarrow> Block" where
  "NewBlock network_id number timestamp logs =
     \<lparr>NetworkId = network_id, BlockNumber = number, BlockTimestamp = timestamp, Logs = logs\<rparr>"

subsection \<open>The subscription ingestor: \<open>subscribe\<close>\<close>

text \<open>
  What the accessors of the broadcast's reply parameters return for one inbound
  message; \<open>None\<close> is the accessor's error. \<open>logs_param\<close> is the result of
  \<open>spaghetti_log.NewLogs\<close> on the raw \<open>logs\<close> parameter.
\<close>

record Inbound =
  block_number_param :: "uint64 option"
  network_id_param :: "string option"
  block_timestamp_param :: "uint64 option"
  logs_param :: "Log list option"

text \<open>
  One turn of the polling loop: the poll fails, times out with nothing to read, the
  receive fails, \<open>ParseBroadcast\<close> fails, or a broadcast was parsed.
\<close>

datatype feed_event = PollFailed | Idle | RecvFailed | Unparsable | Parsed Inbound

text \<open>The body of the loop of \<open>subscribe\<close> (lines 315 to 383).\<close>

definition subscribe_step :: "Manager \<Rightarrow> feed_event \<Rightarrow> flow \<times> Manager" where
  "subscribe_step manager ev =
     (case ev of
        PollFailed \<Rightarrow> (Panic, manager)
      | Idle \<Rightarrow> (Next, manager)
      | RecvFailed \<Rightarrow> (Panic, manager)
      | Unparsable \<Rightarrow> (Panic, manager)
      | Parsed reply \<Rightarrow>
          (case block_number_param reply of
             None \<Rightarrow> (Panic, manager)
           | Some number \<Rightarrow>
          (case network_id_param reply of
             None \<Rightarrow> (Panic, manager)
           | Some network_id \<Rightarrow>
               if network_id \<noteq> Network_Id manager then (Next, manager)
               else if subscribed_earliest_block_number manager \<noteq> 0
                       \<and> number < subscribed_earliest_block_number manager
               then (Next, manager)
               else
                 let manager1 =
                       (if subscribed_earliest_block_number manager = 0
                        then manager\<lparr>subscribed_earliest_block_number := number\<rparr>
                        else manager)
                 in
                 (case block_timestamp_param reply of
                    None \<Rightarrow> (Panic, manager1)
                  | Some timestamp \<Rightarrow>
                 (case logs_param reply of
                    None \<Rightarrow> (Panic, manager1)
                  | Some logs \<Rightarrow>
                      (Next, manager1\<lparr>subscribed_blocks :=
                         Push (subscribed_blocks manager1)
                           (NewBlock (Network_Id manager) number timestamp logs)\<rparr>))))))"

text \<open>
  The loop itself never returns; a finite list of feed events is a prefix of what the
  feed delivers. The result is \<open>Next\<close> while the ingestor is still listening.
\<close>

fun subscribe :: "Manager \<Rightarrow> feed_event list \<Rightarrow> flow \<times> Manager" where
  "subscribe manager [] = (Next, manager)"
| "subscribe manager (ev # evs) =
     (case subscribe_step manager ev of
        (Next, manager') \<Rightarrow> subscribe manager' evs
      | (Break, manager') \<Rightarrow> (Break, manager')
      | (Panic, manager') \<Rightarrow> (Panic, manager'))"

text \<open>A broadcast of the manager's own network with every parameter well formed.\<close>

definition block_event :: "string \<Rightarrow> uint64 \<Rightarrow> uint64 \<Rightarrow> Log list \<Rightarrow> feed_event" where
  "block_event network_id number timestamp logs =
     Parsed \<lparr>block_number_param = Some number, network_id_param = Some network_id,
             block_timestamp_param = Some timestamp, logs_param = Some logs\<rparr>"

text \<open>
  The feed events the ingestor gets past with the baseline still at 0: a poll with
  nothing to read, a broadcast of another network, and a well-formed block numbered 0
  of the manager's network. Every other event either panics or carries a block of the
  manager's network whose number is not 0.
\<close>

definition leaves_unset :: "string \<Rightarrow> feed_event \<Rightarrow> bool" where
  "leaves_unset network ev =
     (case ev of
        Idle \<Rightarrow> True
      | Parsed reply \<Rightarrow>
          (case block_number_param reply of
             None \<Rightarrow> False
           | Some number \<Rightarrow>
          (case network_id_param reply of
             None \<Rightarrow> False
           | Some network_id \<Rightarrow>
               network_id \<noteq> network
               \<or> (number = 0 \<and> block_timestamp_param reply \<noteq> None \<and> logs_param reply \<noteq> None)))
      | _ \<Rightarrow> False)"

text \<open>The manager \<open>NewManager\<close> returns, with nothing sent over its sockets yet.\<close>

definition NewManager :: "string \<Rightarrow> Manager" where
  "NewManager network_id =
     \<lparr>Network_Id = network_id, old_categorizers = [],
      group_heap = (\<lambda>_. \<lparr>block_number = 0, workers = []\<rparr>),
      current_workers = [], subscribed_earliest_block_number = 0, subscribed_blocks = [],
      pusher = [], remote_calls = []\<rparr>"

subsection \<open>The collaborators of the engines\<close>

text \<open>
  What the catch-up engine and the live dispatcher call outside the manager:
  \<open>spaghetti_log.RemoteLogFilter\<close> over the blockchain socket (\<open>None\<close> is its error),
  \<open>worker.categorize\<close>, which updates the worker and returns a block number, and
  \<open>manager.pusher.SendMessage\<close> (\<open>True\<close> when it returns no error). None of the
  three is among the sources, so the engines take them as parameters.
\<close>

record Env =
  RemoteLogFilter :: "uint64 \<Rightarrow> string list \<Rightarrow> Log list option"
  categorize :: "EvmWorker \<Rightarrow> Log list \<Rightarrow> EvmWorker \<times> uint64"
  SendMessage :: "Push \<Rightarrow> bool"

text \<open>
  Modelled from the spec: \<open>spaghetti_log.FilterByAddress\<close> is not among the sources;
  the spec has the engine "filter the fetched logs to its address".
\<close>

definition FilterByAddress :: "Log list \<Rightarrow> string \<Rightarrow> Log list" where
  "FilterByAddress all_logs address = filter (\<lambda>l. LogAddress l = address) all_logs"

text \<open>
  Modelled from the spec: \<open>Block.GetForSmartcontract\<close> is not among the sources; the
  spec has the dispatcher "extract this worker's logs from the block".
\<close>

definition GetForSmartcontract :: "Block \<Rightarrow> string \<Rightarrow> Log list" where
  "GetForSmartcontract block address = filter (\<lambda>l. LogAddress l = address) (Logs block)"

text \<open>
  Modelled from the spec: \<open>EvmWorkers.GetSmartcontractAddresses\<close> is not among the
  sources; it is taken to return the address of each worker's smartcontract, in order.
\<close>

definition workers_GetSmartcontractAddresses :: "EvmWorker list \<Rightarrow> string list" where
  "workers_GetSmartcontractAddresses ws = map (\<lambda>w. Address (smartcontract w)) ws"

text \<open>
  Modelled from the spec: \<open>OldWorkerGroups.Delete\<close> is not among the sources; on
  promotion the spec has the group removed from the collection.
\<close>

definition Delete :: "nat list \<Rightarrow> nat \<Rightarrow> nat list" where
  "Delete groups grp = removeAll grp groups"

text \<open>
  Modelled from the spec: \<open>NewGroup\<close> is not among the sources; a group holds a
  cursor and its member workers.
\<close>

definition NewGroup :: "uint64 \<Rightarrow> EvmWorker list \<Rightarrow> OldWorkerGroup" where
  "NewGroup number ws = \<lparr>block_number = number, workers = ws\<rparr>"

subsection \<open>\<open>GetSmartcontractAddresses\<close> and \<open>add_current_workers\<close>\<close>

text \<open>
  The addresses of the workers of every group, group after group, followed by those of
  the current workers (lines 87 to 97).
\<close>

definition GetSmartcontractAddresses :: "Manager \<Rightarrow> string list" where
  "GetSmartcontractAddresses manager =
     concat (map (\<lambda>grp. workers_GetSmartcontractAddresses (workers (group_heap manager grp)))
               (old_categorizers manager))
     @ workers_GetSmartcontractAddresses (current_workers manager)"

definition add_current_workers :: "Manager \<Rightarrow> EvmWorker list \<Rightarrow> Manager" where
  "add_current_workers manager ws = manager\<lparr>current_workers := current_workers manager @ ws\<rparr>"

subsection \<open>The catch-up engine: \<open>categorize_old_smartcontracts\<close>\<close>

text \<open>
  The loop over the group's workers (lines 188 to 211). It carries \<open>block_number_to\<close>
  and the requests sent so far, and returns the workers as the loop left them. A worker
  with no log in the reply is passed over; for any other worker \<open>block_number_to\<close> is
  overwritten with what \<open>categorize\<close> returns, and a failed send panics on the spot.
\<close>

fun categorize_old_workers ::
  "Env \<Rightarrow> Log list \<Rightarrow> EvmWorker list \<Rightarrow> uint64 \<Rightarrow> Push list
     \<Rightarrow> flow \<times> EvmWorker list \<times> uint64 \<times> Push list" where
  "categorize_old_workers env all_logs [] block_number_to sent = (Next, [], block_number_to, sent)"
| "categorize_old_workers env all_logs (worker # rest) block_number_to sent =
     (let logs = FilterByAddress all_logs (Address (smartcontract worker)) in
      if length logs = 0
      then (case categorize_old_workers env all_logs rest block_number_to sent of
              (fl, rest', reached', sent') \<Rightarrow> (fl, worker # rest', reached', sent'))
      else
        (case categorize env worker logs of
           (worker', reached) \<Rightarrow>
             let push = \<lparr>push_smartcontracts = [smartcontract worker'], push_logs = logs\<rparr> in
             if SendMessage env push
             then (case categorize_old_workers env all_logs rest reached (sent @ [push]) of
                     (fl, rest', reached', sent') \<Rightarrow> (fl, worker' # rest', reached', sent'))
             else (Panic, worker' # rest, reached, sent)))"

text \<open>
  One iteration of the engine's loop (lines 177 to 219) for the group behind the pointer
  \<open>grp\<close>. A failed fetch goes on to the next iteration with nothing changed but the
  record of the call. A panic leaves \<open>group.block_number\<close> as it was, since line 213
  is not reached. Otherwise the cursor is stored and, when it has reached
  \<open>subscribed_earliest_block_number\<close>, the workers are added to the current ones and
  the loop is left.
\<close>

definition categorize_old_round :: "Env \<Rightarrow> nat \<Rightarrow> Manager \<Rightarrow> flow \<times> Manager" where
  "categorize_old_round env grp manager =
     (let block_number_from = block_number (group_heap manager grp) + 1;
          addresses = GetSmartcontractAddresses manager;
          manager1 = manager\<lparr>remote_calls := remote_calls manager @ [(block_number_from, addresses)]\<rparr>
      in
      case RemoteLogFilter env block_number_from addresses of
        None \<Rightarrow> (Next, manager1)
      | Some all_logs \<Rightarrow>
          (case categorize_old_workers env all_logs (workers (group_heap manager1 grp))
                  block_number_from (pusher manager1) of
             (fl, ws, block_number_to, sent) \<Rightarrow>
               if fl = Panic
               then (Panic, manager1\<lparr>group_heap := (group_heap manager1)
                                (grp := (group_heap manager1 grp)\<lparr>workers := ws\<rparr>),
                              pusher := sent\<rparr>)
               else
                 let manager2 = manager1\<lparr>group_heap := (group_heap manager1)
                                  (grp := \<lparr>block_number = block_number_to, workers = ws\<rparr>),
                                pusher := sent\<rparr>
                 in
                 if block_number_to \<ge> subscribed_earliest_block_number manager2
                 then (Break, add_current_workers manager2 (workers (group_heap manager2 grp)))
                 else (Next, manager2)))"



subsection \<open>The live dispatcher: \<open>categorize_current_smartcontracts\<close>\<close>

text \<open>
  The loop over the current workers for one block popped from the queue (lines 243 to
  265). A worker whose \<open>CategorizedBlockNumber\<close> is at or past the block is skipped.
  For every other worker the block's logs of its address are categorized and a request
  is sent, whether or not there is any log; a failed send panics on the spot.
\<close>

fun categorize_current_workers ::
  "Env \<Rightarrow> Block \<Rightarrow> EvmWorker list \<Rightarrow> Push list \<Rightarrow> flow \<times> EvmWorker list \<times> Push list" where
  "categorize_current_workers env block [] sent = (Next, [], sent)"
| "categorize_current_workers env block (worker # rest) sent =
     (if BlockNumber block \<le> CategorizedBlockNumber (smartcontract worker)
      then (case categorize_current_workers env block rest sent of
              (fl, rest', sent') \<Rightarrow> (fl, worker # rest', sent'))
      else
        let logs = GetForSmartcontract block (Address (smartcontract worker)) in
        (case categorize env worker logs of
           (worker', reached) \<Rightarrow>
             let push = \<lparr>push_smartcontracts = [smartcontract worker'], push_logs = logs\<rparr> in
             if SendMessage env push
             then (case categorize_current_workers env block rest (sent @ [push]) of
                     (fl, rest', sent') \<Rightarrow> (fl, worker' # rest', sent'))
             else (Panic, worker' # rest, sent)))"

text \<open>One popped block, consumed by the current workers of the manager.\<close>

definition categorize_current_block :: "Env \<Rightarrow> Block \<Rightarrow> Manager \<Rightarrow> flow \<times> Manager" where
  "categorize_current_block env block manager =
     (case categorize_current_workers env block (current_workers manager) (pusher manager) of
        (fl, ws, sent) \<Rightarrow> (fl, manager\<lparr>current_workers := ws, pusher := sent\<rparr>))"




subsection \<open>Sample collaborators\<close>

text \<open>
  Modelled from the spec: \<open>worker.categorize\<close> is not among the sources. The spec's
  contract is \<open>apply(logs) -> newCategorizedBlockNumber\<close>: the watermark becomes the
  highest block number whose logs have been applied, never decreases, and is returned.
\<close>

definition categorize_logs :: "EvmWorker \<Rightarrow> Log list \<Rightarrow> EvmWorker \<times> uint64" where
  "categorize_logs worker logs =
     (let reached = foldl max (CategorizedBlockNumber (smartcontract worker)) (map LogBlockNumber logs)
      in (worker\<lparr>smartcontract := (smartcontract worker)\<lparr>CategorizedBlockNumber := reached\<rparr>\<rparr>,
          reached))"

text \<open>
  Modelled from the spec: the historical log source answers a request
  \<open>{addresses, from_block}\<close> with the logs of these addresses from that block on.
  \<open>chain_env chain_logs deliver\<close> is the environment of a chain holding \<open>chain_logs\<close>,
  with the sample \<open>categorize_logs\<close> and a result channel that delivers exactly the
  requests \<open>deliver\<close> accepts.
\<close>

definition chain_env :: "Log list \<Rightarrow> (Push \<Rightarrow> bool) \<Rightarrow> Env" where
  "chain_env chain_logs deliver =
     \<lparr>RemoteLogFilter = (\<lambda>from addresses.
          Some (filter (\<lambda>l. from \<le> LogBlockNumber l \<and> LogAddress l \<in> set addresses) chain_logs)),
      categorize = categorize_logs,
      SendMessage = deliver\<rparr>"

definition new_worker :: "string \<Rightarrow> uint64 \<Rightarrow> EvmWorker" where
  "new_worker address number =
     \<lparr>smartcontract = \<lparr>Address = address, CategorizedBlockNumber = number\<rparr>\<rparr>"

section \<open>The messages (package message: Reply and Broadcast)\<close>

subsection \<open>Data\<close>

text \<open>
  Go errors. \<open>fmt.Errorf\<close> with \<open>%w\<close> wraps the error it is given under a prefix;
  \<open>Failure\<close> is an error made from a text alone.
\<close>

datatype error = Failure string | Errorf string error

text \<open>
  \<open>key_value.KeyValue\<close> is the type parameter \<open>'kv\<close>: the package that defines it is
  not among the sources.
\<close>

record 'kv Reply =
  Status :: string
  Message :: string
  Parameters :: 'kv

record 'kv Broadcast =
  Reply :: "'kv Reply"
  Topic :: string

definition OK :: string where
  "OK = ''OK''"

definition FAIL :: string where
  "FAIL = ''fail''"

text \<open>
  What the message package calls outside the two source files: \<open>message.ToString\<close>,
  which turns the parts of a zeromq message into one string, and the functions of the
  \<open>key_value\<close> package. \<open>NewFromInterface\<close> and \<open>ToInterface\<close> are used at two
  types, so each use has a field of its own. An \<open>Inl\<close> is the returned error.
\<close>

record 'kv Package =
  ToString :: "string list \<Rightarrow> string"
  Empty :: 'kv
  NewFromInterface_Reply :: "'kv Reply \<Rightarrow> error + 'kv"
  NewFromInterface_Broadcast :: "'kv Broadcast \<Rightarrow> error + 'kv"
  ToBytes :: "'kv \<Rightarrow> error + string"
  NewFromString :: "string \<Rightarrow> error + 'kv"
  ToInterface_Reply :: "'kv \<Rightarrow> error + 'kv Reply"
  GetString :: "'kv \<Rightarrow> string \<Rightarrow> error + string"
  GetKeyValue :: "'kv \<Rightarrow> string \<Rightarrow> error + 'kv"

subsection \<open>Reply\<close>

definition Fail :: "'kv Package \<Rightarrow> string \<Rightarrow> 'kv Reply" where
  "Fail pkg message = \<lparr>Status = FAIL, Message = message, Parameters = Empty pkg\<rparr>"

definition valid_status :: "'kv Reply \<Rightarrow> error option" where
  "valid_status reply =
     (if Status reply \<noteq> FAIL \<and> Status reply \<noteq> OK
      then Some (Failure (''status is either 'OK' or 'fail', but given: '' @ [CHR 0x27]
                          @ Status reply @ [CHR 0x27]))
      else None)"

definition valid_fail :: "'kv Reply \<Rightarrow> error option" where
  "valid_fail reply =
     (if Status reply = FAIL \<and> length (Message reply) = 0
      then Some (Failure ''failure should not have an empty message'')
      else None)"

definition IsOK :: "'kv Reply \<Rightarrow> bool" where
  "IsOK r = (Status r = OK)"

text \<open>
  The error of a failed conversion to a key-value is formatted with the reply in the
  source (\<open>%v\<close>); the text of the reply is left out here.
\<close>

definition Reply_ToBytes :: "'kv Package \<Rightarrow> 'kv Reply \<Rightarrow> error + string" where
  "Reply_ToBytes pkg reply =
     (case valid_fail reply of
        Some err \<Rightarrow> Inl (Errorf ''failure validation'' err)
      | None \<Rightarrow>
     (case valid_status reply of
        Some err \<Rightarrow> Inl (Errorf ''status validation'' err)
      | None \<Rightarrow>
     (case NewFromInterface_Reply pkg reply of
        Inl err \<Rightarrow> Inl (Errorf ''failed to serialize Reply to key-value'' err)
      | Inr kv \<Rightarrow>
     (case ToBytes pkg kv of
        Inl err \<Rightarrow> Inl (Errorf ''serialized key-value.ToBytes'' err)
      | Inr bytes \<Rightarrow> Inr bytes))))"

definition Reply_ToString :: "'kv Package \<Rightarrow> 'kv Reply \<Rightarrow> error + string" where
  "Reply_ToString pkg reply =
     (case Reply_ToBytes pkg reply of
        Inl err \<Rightarrow> Inl (Errorf ''reply.ToBytes'' err)
      | Inr bytes \<Rightarrow> Inr bytes)"

text \<open>
  \<open>ParseJsonReply\<close> validates what it decoded by encoding it again and dropping the
  bytes.
\<close>

definition ParseJsonReply :: "'kv Package \<Rightarrow> 'kv \<Rightarrow> error + 'kv Reply" where
  "ParseJsonReply pkg dat =
     (case ToInterface_Reply pkg dat of
        Inl err \<Rightarrow> Inl (Errorf ''failed to serialize key-value to msg.Reply'' err)
      | Inr reply \<Rightarrow>
     (case Reply_ToBytes pkg reply of
        Inl err \<Rightarrow> Inl (Errorf ''validation'' err)
      | Inr _ \<Rightarrow> Inr reply))"

definition ParseReply :: "'kv Package \<Rightarrow> string list \<Rightarrow> error + 'kv Reply" where
  "ParseReply pkg msgs =
     (let msg = ToString pkg msgs in
      case NewFromString pkg msg of
        Inl err \<Rightarrow> Inl (Errorf ''key_value.NewFromString'' err)
      | Inr dat \<Rightarrow>
     (case ParseJsonReply pkg dat of
        Inl err \<Rightarrow> Inl (Errorf ''ParseJsonReply'' err)
      | Inr reply \<Rightarrow> Inr reply))"

subsection \<open>Broadcast\<close>

definition NewBroadcast :: "string \<Rightarrow> 'kv Reply \<Rightarrow> 'kv Broadcast" where
  "NewBroadcast topic reply = \<lparr>Reply = reply, Topic = topic\<rparr>"

text \<open>
  \<open>Broadcast.ToBytes\<close> does not validate the reply; when the conversion to a key-value
  fails it returns no bytes, and an error of \<open>kv.ToBytes\<close> is dropped.
\<close>

definition Broadcast_ToBytes :: "'kv Package \<Rightarrow> 'kv Broadcast \<Rightarrow> string" where
  "Broadcast_ToBytes pkg b =
     (case NewFromInterface_Broadcast pkg b of
        Inl err \<Rightarrow> []
      | Inr kv \<Rightarrow> (case ToBytes pkg kv of Inl err \<Rightarrow> [] | Inr bytes \<Rightarrow> bytes))"

text \<open>\<open>strings.Index\<close> for a substring of one byte: the first position, or \<open>-1\<close>.\<close>

fun Index :: "string \<Rightarrow> char \<Rightarrow> int" where
  "Index [] c = - 1"
| "Index (x # xs) c =
     (if x = c then 0 else (let i = Index xs c in if i = - 1 then - 1 else i + 1))"

definition ParseBroadcast :: "'kv Package \<Rightarrow> string list \<Rightarrow> error + 'kv Broadcast" where
  "ParseBroadcast pkg msgs =
     (let msg = ToString pkg msgs;
          i = Index msg (CHR ''{'')
      in
      if i = - 1
      then Inl (Failure (''invalid broadcast message '' @ msg
                          @ '', no distinction between topic and reply''))
      else
        let broadcastRaw = drop (nat i) msg in
        (case NewFromString pkg broadcastRaw of
           Inl err \<Rightarrow> Inl (Errorf ''key_value.NewFromString'' err)
         | Inr dat \<Rightarrow>
        (case GetString pkg dat ''topic'' of
           Inl err \<Rightarrow> Inl (Errorf ''broadcast.GetString(`topic`)'' err)
         | Inr topic \<Rightarrow>
        (case GetKeyValue pkg dat ''reply'' of
           Inl err \<Rightarrow> Inl (Errorf ''broadcast.GetKeyValue(`reply`)'' err)
         | Inr raw_reply \<Rightarrow>
        (case ParseJsonReply pkg raw_reply of
           Inl err \<Rightarrow> Inl (Errorf ''ParseJsonReply'' err)
         | Inr reply \<Rightarrow> Inr \<lparr>Reply = reply, Topic = topic\<rparr>)))))"

subsection \<open>The wire shape and the package, as the spec has them\<close>

text \<open>
  Modelled from the spec: a Reply is \<open>{status: "OK"|"fail", message: string (required
  iff status=="fail"), parameters}\<close>. The message is required when the status is
  \<open>fail\<close>; a message with status \<open>OK\<close> is not refused.
\<close>

definition valid_reply :: "'kv Reply \<Rightarrow> bool" where
  "valid_reply reply \<longleftrightarrow>
     (Status reply = OK \<or> Status reply = FAIL) \<and> (Status reply = FAIL \<longrightarrow> Message reply \<noteq> [])"

text \<open>
  Modelled from the spec: the \<open>key_value\<close> package and \<open>message.ToString\<close> are not
  among the sources. The spec has a message go through "wire encoding" and "decoding"
  and come back identical, so the package is taken to lose nothing: a message of one
  part is that part; the bytes of a key-value decode to the same key-value and, being
  an object, start with an opening brace; the key-value made from a Reply converts back
  to that Reply; and the key-value made from a Broadcast holds the topic under
  \<open>topic\<close> and, under \<open>reply\<close>, a key-value that converts back to its Reply.
\<close>

definition lossless :: "'kv Package \<Rightarrow> bool" where
  "lossless pkg \<longleftrightarrow>
     (\<forall>s. ToString pkg [s] = s)
   \<and> (\<forall>kv bytes. ToBytes pkg kv = Inr bytes \<longrightarrow>
         NewFromString pkg bytes = Inr kv \<and> (\<exists>rest. bytes = CHR ''{'' # rest))
   \<and> (\<forall>reply kv. NewFromInterface_Reply pkg reply = Inr kv \<longrightarrow>
         ToInterface_Reply pkg kv = Inr reply)
   \<and> (\<forall>b kv. NewFromInterface_Broadcast pkg b = Inr kv \<longrightarrow>
         GetString pkg kv ''topic'' = Inr (Topic b)
       \<and> (\<exists>raw. GetKeyValue pkg kv ''reply'' = Inr raw
              \<and> ToInterface_Reply pkg raw = Inr (Reply b)))"

text \<open>
  What \<open>ParseBroadcast\<close> requires of the text from the first brace on: it decodes to a
  key-value that has a string under \<open>topic\<close> and, under \<open>reply\<close>, a key-value that
  \<open>ParseJsonReply\<close> accepts.
\<close>

definition broadcast_json :: "'kv Package \<Rightarrow> string \<Rightarrow> bool" where
  "broadcast_json pkg raw =
     (case NewFromString pkg raw of
        Inl err \<Rightarrow> False
      | Inr dat \<Rightarrow>
     (case GetString pkg dat ''topic'' of
        Inl err \<Rightarrow> False
      | Inr topic \<Rightarrow>
     (case GetKeyValue pkg dat ''reply'' of
        Inl err \<Rightarrow> False
      | Inr raw_reply \<Rightarrow>
     (case ParseJsonReply pkg raw_reply of
        Inl err \<Rightarrow> False
      | Inr reply \<Rightarrow> True))))"

subsection \<open>A sample package\<close>

text \<open>
  A small package that loses nothing. A key-value is the list of its field values: a
  Reply is its status, its message and then its parameters; a Broadcast is its topic
  followed by its Reply. On the wire the fields stand after an opening brace, each
  closed by a semicolon; a field that holds a semicolon cannot be written.
\<close>

fun fields :: "string \<Rightarrow> string \<Rightarrow> string list" where
  "fields cur [] = []"
| "fields cur (c # cs) =
     (if c = CHR '';'' then rev cur # fields [] cs else fields (c # cur) cs)"

definition sample_ToBytes :: "string list \<Rightarrow> error + string" where
  "sample_ToBytes kv =
     (if list_all (\<lambda>f. CHR '';'' \<notin> set f) kv
      then Inr (CHR ''{'' # concat (map (\<lambda>f. f @ '';'') kv))
      else Inl (Failure ''unsupported value''))"

definition sample_NewFromString :: "string \<Rightarrow> error + string list" where
  "sample_NewFromString s =
     (case s of
        [] \<Rightarrow> Inl (Failure ''unexpected end of input'')
      | c # cs \<Rightarrow>
          if c = CHR ''{'' then Inr (fields [] cs) else Inl (Failure ''invalid character''))"

definition sample_ToInterface_Reply :: "string list \<Rightarrow> error + string list Reply" where
  "sample_ToInterface_Reply kv =
     (case kv of
        s # m # ps \<Rightarrow> Inr \<lparr>Status = s, Message = m, Parameters = ps\<rparr>
      | _ \<Rightarrow> Inl (Failure ''missing field''))"

definition sample_GetString :: "string list \<Rightarrow> string \<Rightarrow> error + string" where
  "sample_GetString kv key =
     (case kv of
        t # rest \<Rightarrow> if key = ''topic'' then Inr t else Inl (Failure ''missing key'')
      | [] \<Rightarrow> Inl (Failure ''missing key''))"

definition sample_GetKeyValue :: "string list \<Rightarrow> string \<Rightarrow> error + string list" where
  "sample_GetKeyValue kv key =
     (case kv of
        t # rest \<Rightarrow> if key = ''reply'' then Inr rest else Inl (Failure ''missing key'')
      | [] \<Rightarrow> Inl (Failure ''missing key''))"

definition sample_package :: "string list Package" where
  "sample_package =
     \<lparr>ToString = concat,
      Empty = [],
      NewFromInterface_Reply = (\<lambda>r. Inr (Status r # Message r # Parameters r)),
      NewFromInterface_Broadcast =
        (\<lambda>b. Inr (Topic b # Status (Reply b) # Message (Reply b) # Parameters (Reply b))),
      ToBytes = sample_ToBytes,
      NewFromString = sample_NewFromString,
      ToInterface_Reply = sample_ToInterface_Reply,
      GetString = sample_GetString,
      GetKeyValue = sample_GetKeyValue\<rparr>"

text \<open>A block announcement of network \<open>eth\<close>, and a failure.\<close>

definition block_reply :: "string list Reply" where
  "block_reply = \<lparr>Status = OK, Message = [], Parameters = [''150'', ''eth'']\<rparr>"

definition failed_reply :: "string list Reply" where
  "failed_reply = Fail sample_package ''no such block''"

section \<open>Sample states\<close>

text \<open>A manager of network \<open>eth\<close> whose subscription has seen block 150 first.\<close>

definition manager_150 :: Manager where
  "manager_150 = (NewManager ''eth'')\<lparr>subscribed_earliest_block_number := 150\<rparr>"

text \<open>
  A manager with the baseline 150, two catch-up groups (workers \<open>a\<close> and \<open>b\<close> at
  cursor 100 behind pointer 0, worker \<open>c\<close> at cursor 90 behind pointer 1) and one
  current worker \<open>d\<close>.
\<close>

definition catchup_manager :: Manager where
  "catchup_manager = (NewManager ''eth'')\<lparr>
      old_categorizers := [0, 1],
      group_heap := (\<lambda>_. \<lparr>block_number = 0, workers = []\<rparr>)
         (0 := NewGroup 100 [new_worker ''a'' 100, new_worker ''b'' 100],
          1 := NewGroup 90 [new_worker ''c'' 90]),
      current_workers := [new_worker ''d'' 150],
      subscribed_earliest_block_number := 150\<rparr>"

definition log_at :: "string \<Rightarrow> uint64 \<Rightarrow> Log" where
  "log_at address number = \<lparr>LogAddress = address, LogBlockNumber = number\<rparr>"

text \<open>A result channel that takes every request, and one that fails on every request.\<close>

definition always_delivers :: "Push \<Rightarrow> bool" where
  "always_delivers p = True"

definition never_delivers :: "Push \<Rightarrow> bool" where
  "never_delivers p = False"


text \<open>A chain where \<open>a\<close> has a log in block 140 and \<open>b\<close> one in block 120.\<close>

definition staggered_logs :: "Log list" where
  "staggered_logs = [log_at ''a'' 140, log_at ''b'' 120]"


definition quiet_block_151 :: Block where
  "quiet_block_151 = NewBlock ''eth'' 151 7 []"




section \<open>Properties of the subscription ingestor\<close>

lemma subscribe_step_keeps_baseline:
  "subscribed_earliest_block_number manager \<noteq> 0 \<Longrightarrow> subscribe_step manager ev = (fl, manager') \<Longrightarrow>
   subscribed_earliest_block_number manager' = subscribed_earliest_block_number manager"
  by (auto simp add: subscribe_step_def Let_def split: feed_event.splits option.splits if_splits)

lemma subscribe_keeps_baseline:
  "subscribed_earliest_block_number manager \<noteq> 0 \<Longrightarrow>
   subscribed_earliest_block_number (snd (subscribe manager evs))
     = subscribed_earliest_block_number manager"
proof (induction evs arbitrary: manager)
  case Nil
  then show ?case by simp
next
  case (Cons ev evs)
  obtain fl manager' where st: "subscribe_step manager ev = (fl, manager')"
    by (cases "subscribe_step manager ev")
  have eq: "subscribed_earliest_block_number manager' = subscribed_earliest_block_number manager"
    using subscribe_step_keeps_baseline [OF Cons.prems st] .
  show ?case
  proof (cases fl)
    case Next
    with st Cons.IH [of manager'] eq Cons.prems show ?thesis by simp
  next
    case Break
    with st eq show ?thesis by simp
  next
    case Panic
    with st eq show ?thesis by simp
  qed
qed

lemma subscribe_step_sets_baseline:
  assumes "subscribed_earliest_block_number manager = 0"
      and "block_number_param reply = Some number"
      and "network_id_param reply = Some (Network_Id manager)"
  shows "subscribed_earliest_block_number (snd (subscribe_step manager (Parsed reply))) = number"
  using assms by (simp add: subscribe_step_def Let_def split: option.splits)

text \<open>
  C4, as amended. Once the baseline is set (it is not 0), a well-formed broadcast of the
  manager's network is discarded, the manager unchanged, when its block number is
  strictly below the baseline; a block whose number is the baseline or more is pushed
  at the back of the queue.
\<close>

theorem subscribe_baseline_filter:
  assumes "subscribed_earliest_block_number manager \<noteq> 0"
  shows "subscribe_step manager (block_event (Network_Id manager) number timestamp logs) =
     (if number < subscribed_earliest_block_number manager then (Next, manager)
      else (Next, manager\<lparr>subscribed_blocks := subscribed_blocks manager
                @ [NewBlock (Network_Id manager) number timestamp logs]\<rparr>))"
  using assms by (simp add: subscribe_step_def block_event_def Push_def)

text \<open>With the baseline at 150, block 149 is discarded and block 151 is queued.\<close>

theorem subscribe_baseline_filter_witness:
  "subscribed_earliest_block_number manager_150 \<noteq> 0
   \<and> subscribe_step manager_150 (block_event ''eth'' 149 7 []) = (Next, manager_150)
   \<and> subscribe_step manager_150 (block_event ''eth'' 151 7 []) =
       (Next, manager_150\<lparr>subscribed_blocks := [NewBlock ''eth'' 151 7 []]\<rparr>)"
proof -
  have nz: "subscribed_earliest_block_number manager_150 \<noteq> 0"
    by (simp add: manager_150_def NewManager_def)
  have fields: "Network_Id manager_150 = ''eth''" "subscribed_blocks manager_150 = []"
      "subscribed_earliest_block_number manager_150 = 150"
    by (simp_all add: manager_150_def NewManager_def)
  show ?thesis
    using nz subscribe_baseline_filter [OF nz, of 149 7 "[]"]
      subscribe_baseline_filter [OF nz, of 151 7 "[]"]
    by (simp add: fields)
qed

text \<open>
  C4 as stated fails: the feed delivers 150 (which sets the baseline), then 151, then
  150 again. The second 150 is not discarded: the queue holds 150, 151, 150.
\<close>

theorem redelivered_baseline_block_counterexample:
  "map BlockNumber (subscribed_blocks (snd (subscribe (NewManager ''eth'')
      [block_event ''eth'' 150 1 [], block_event ''eth'' 151 2 [], block_event ''eth'' 150 1 []])))
   = [150, 151, 150]
   \<and> subscribed_earliest_block_number (snd (subscribe (NewManager ''eth'')
      [block_event ''eth'' 150 1 [], block_event ''eth'' 151 2 [], block_event ''eth'' 150 1 []])) = 150"
  by (simp add: subscribe_step_def block_event_def NewManager_def Push_def NewBlock_def)

lemma subscribe_step_leaves_unset:
  assumes "subscribed_earliest_block_number manager = 0"
      and "leaves_unset (Network_Id manager) ev"
  shows "\<exists>manager'. subscribe_step manager ev = (Next, manager')
           \<and> subscribed_earliest_block_number manager' = 0
           \<and> Network_Id manager' = Network_Id manager"
  using assms
  by (auto simp add: subscribe_step_def leaves_unset_def Let_def
      split: feed_event.splits option.splits)

lemma subscribe_leaves_unset:
  assumes "subscribed_earliest_block_number manager = 0"
      and "list_all (leaves_unset (Network_Id manager)) pre"
  shows "\<exists>manager'. subscribe manager (pre @ evs) = subscribe manager' evs
           \<and> subscribed_earliest_block_number manager' = 0
           \<and> Network_Id manager' = Network_Id manager"
  using assms
proof (induction pre arbitrary: manager)
  case Nil
  then show ?case by auto
next
  case (Cons ev pre)
  from Cons.prems have "leaves_unset (Network_Id manager) ev" by simp
  from subscribe_step_leaves_unset [OF Cons.prems(1) this]
  obtain m1 where st: "subscribe_step manager ev = (Next, m1)"
      and z: "subscribed_earliest_block_number m1 = 0"
      and n: "Network_Id m1 = Network_Id manager"
    by blast
  from Cons.prems n have "list_all (leaves_unset (Network_Id m1)) pre" by simp
  from Cons.IH [OF z this] n st show ?case by auto
qed

text \<open>
  C7, as amended. Once the baseline is not 0, no sequence of feed events changes it,
  whether the ingestor goes on or panics. While it is 0, idle polls, broadcasts of other
  networks and well-formed blocks numbered 0 leave it at 0 and the ingestor listening;
  the first broadcast of the manager's network whose block number is not 0 then sets
  it to that number, and it stays there for every later event.
\<close>

theorem baseline_fixed_once_nonzero:
  "(subscribed_earliest_block_number manager \<noteq> 0 \<longrightarrow>
      subscribed_earliest_block_number (snd (subscribe manager evs))
        = subscribed_earliest_block_number manager)
   \<and> (subscribed_earliest_block_number manager = 0
        \<and> list_all (leaves_unset (Network_Id manager)) pre \<longrightarrow>
      fst (subscribe manager pre) = Next
      \<and> subscribed_earliest_block_number (snd (subscribe manager pre)) = 0)
   \<and> (subscribed_earliest_block_number manager = 0
        \<and> list_all (leaves_unset (Network_Id manager)) pre
        \<and> number \<noteq> 0
        \<and> block_number_param reply = Some number
        \<and> network_id_param reply = Some (Network_Id manager) \<longrightarrow>
      subscribed_earliest_block_number (snd (subscribe manager (pre @ Parsed reply # evs))) = number)"
proof (intro conjI impI)
  assume "subscribed_earliest_block_number manager \<noteq> 0"
  then show "subscribed_earliest_block_number (snd (subscribe manager evs))
        = subscribed_earliest_block_number manager"
    by (rule subscribe_keeps_baseline)
next
  assume a: "subscribed_earliest_block_number manager = 0
        \<and> list_all (leaves_unset (Network_Id manager)) pre"
  then obtain m1 where "subscribe manager (pre @ []) = subscribe m1 []"
      and "subscribed_earliest_block_number m1 = 0"
    using subscribe_leaves_unset [of manager pre "[]"] by blast
  then show "fst (subscribe manager pre) = Next"
    and "subscribed_earliest_block_number (snd (subscribe manager pre)) = 0"
    by simp_all
next
  assume a: "subscribed_earliest_block_number manager = 0
        \<and> list_all (leaves_unset (Network_Id manager)) pre
        \<and> number \<noteq> 0
        \<and> block_number_param reply = Some number
        \<and> network_id_param reply = Some (Network_Id manager)"
  then obtain m1 where run: "subscribe manager (pre @ Parsed reply # evs) = subscribe m1 (Parsed reply # evs)"
      and z: "subscribed_earliest_block_number m1 = 0"
      and n: "Network_Id m1 = Network_Id manager"
    using subscribe_leaves_unset [of manager pre "Parsed reply # evs"] by blast
  obtain fl m2 where st: "subscribe_step m1 (Parsed reply) = (fl, m2)"
    by (cases "subscribe_step m1 (Parsed reply)")
  have b: "subscribed_earliest_block_number m2 = number"
    using subscribe_step_sets_baseline [of m1 reply number] a z n st by simp
  with a have nz: "subscribed_earliest_block_number m2 \<noteq> 0" by simp
  have "subscribed_earliest_block_number (snd (subscribe m1 (Parsed reply # evs))) = number"
    using st b subscribe_keeps_baseline [OF nz, of evs] by (cases fl) simp_all
  with run show "subscribed_earliest_block_number
      (snd (subscribe manager (pre @ Parsed reply # evs))) = number"
    by simp
qed

text \<open>
  A baseline of 150 survives the blocks 151, 149 and 0. A fresh manager that sees an idle
  poll, block 150 of network \<open>bsc\<close> and block 0 of its own network still has no
  baseline; block 160 of its own network sets it, and block 170 does not change it.
\<close>

theorem baseline_fixed_once_nonzero_witness:
  "subscribed_earliest_block_number manager_150 \<noteq> 0
   \<and> subscribed_earliest_block_number (snd (subscribe manager_150
        [block_event ''eth'' 151 7 [], block_event ''eth'' 149 8 [], block_event ''eth'' 0 9 []])) = 150
   \<and> subscribed_earliest_block_number (NewManager ''eth'') = 0
   \<and> list_all (leaves_unset (Network_Id (NewManager ''eth'')))
        [Idle, block_event ''bsc'' 150 7 [], block_event ''eth'' 0 8 []]
   \<and> subscribed_earliest_block_number (snd (subscribe (NewManager ''eth'')
        [Idle, block_event ''bsc'' 150 7 [], block_event ''eth'' 0 8 []])) = 0
   \<and> subscribed_earliest_block_number (snd (subscribe (NewManager ''eth'')
        ([Idle, block_event ''bsc'' 150 7 [], block_event ''eth'' 0 8 []]
         @ block_event ''eth'' 160 9 [] # [block_event ''eth'' 170 10 []]))) = 160"
proof -
  have nz: "subscribed_earliest_block_number manager_150 \<noteq> 0"
    "subscribed_earliest_block_number manager_150 = 150"
    by (simp_all add: manager_150_def NewManager_def)
  have z: "subscribed_earliest_block_number (NewManager ''eth'') = 0"
    "Network_Id (NewManager ''eth'') = ''eth''"
    by (simp_all add: NewManager_def)
  have pre: "list_all (leaves_unset ''eth'')
        [Idle, block_event ''bsc'' 150 7 [], block_event ''eth'' 0 8 []]"
    by (simp add: leaves_unset_def block_event_def)
  show ?thesis
    using baseline_fixed_once_nonzero [where manager = manager_150 and evs =
        "[block_event ''eth'' 151 7 [], block_event ''eth'' 149 8 [], block_event ''eth'' 0 9 []]"]
      baseline_fixed_once_nonzero [where manager = "NewManager ''eth''" and number = 160
        and pre = "[Idle, block_event ''bsc'' 150 7 [], block_event ''eth'' 0 8 []]"
        and reply = "\<lparr>block_number_param = Some 160, network_id_param = Some ''eth'',
          block_timestamp_param = Some 9, logs_param = Some []\<rparr>"
        and evs = "[block_event ''eth'' 170 10 []]"]
      nz z pre
    by (simp add: block_event_def)
qed

text \<open>
  C7 as stated fails: 0 stands for "not set", so a first block numbered 0 leaves the
  baseline at 0 and the next block, 5, sets it again.
\<close>

theorem baseline_block_zero_counterexample:
  "subscribed_earliest_block_number (snd (subscribe (NewManager ''eth'')
      [block_event ''eth'' 0 1 []])) = 0
   \<and> subscribed_earliest_block_number (snd (subscribe (NewManager ''eth'')
      [block_event ''eth'' 0 1 [], block_event ''eth'' 5 2 []])) = 5"
  by (simp add: subscribe_step_def block_event_def NewManager_def Push_def NewBlock_def)

section \<open>Properties of the catch-up engine and the live dispatcher\<close>

subsection \<open>The loops over the workers\<close>

lemma old_workers_flow:
  "categorize_old_workers env all_logs ws to sent = (fl, ws', to', sent') \<Longrightarrow> fl \<noteq> Break"
proof (induction ws arbitrary: to sent fl ws' to' sent')
  case Nil
  then show ?case by simp
next
  case (Cons w ws)
  then show ?case
    by (fastforce simp add: Let_def split: prod.splits if_splits)
qed

lemma old_workers_no_logs:
  "\<forall>w\<in>set ws. FilterByAddress all_logs (Address (smartcontract w)) = [] \<Longrightarrow>
   categorize_old_workers env all_logs ws to sent = (Next, ws, to, sent)"
  by (induction ws arbitrary: to sent) simp_all

lemma old_workers_last:
  assumes "categorize_old_workers env all_logs (pre @ w # post) to sent = (fl, ws', to', sent')"
      and "fl \<noteq> Panic"
      and "FilterByAddress all_logs (Address (smartcontract w)) \<noteq> []"
      and "\<forall>v\<in>set post. FilterByAddress all_logs (Address (smartcontract v)) = []"
  shows "to' = snd (categorize env w (FilterByAddress all_logs (Address (smartcontract w))))"
  using assms
proof (induction pre arbitrary: to sent fl ws' to' sent')
  case Nil
  then show ?case
    by (auto simp add: Let_def old_workers_no_logs split: prod.splits if_splits)
next
  case (Cons p pre)
  then show ?case
    by (auto simp add: Let_def split: prod.splits if_splits)
qed







subsection \<open>One iteration of the engine\<close>

lemma round_remote_calls: 
  "categorize_old_round env grp manager = (fl, manager') \<Longrightarrow>
   remote_calls manager' = remote_calls manager
      @ [(block_number (group_heap manager grp) + 1, GetSmartcontractAddresses manager)]"
  by (auto simp add: categorize_old_round_def Let_def add_current_workers_def
      split: option.splits prod.splits if_splits)

lemma round_only_asks_request:
  "categorize_old_round env grp manager =
   categorize_old_round
     (env\<lparr>RemoteLogFilter := (\<lambda>from addresses.
         if from = block_number (group_heap manager grp) + 1
            \<and> addresses = GetSmartcontractAddresses manager
         then RemoteLogFilter env from addresses else other from addresses)\<rparr>) grp manager"
proof -
  have w: "\<And>all_logs ws to sent f. categorize_old_workers (env\<lparr>RemoteLogFilter := f\<rparr>) all_logs ws to sent
      = categorize_old_workers env all_logs ws to sent"
    subgoal for all_logs ws to sent f
      by (induction ws arbitrary: to sent) (simp_all add: Let_def split: prod.splits)
    done
  show ?thesis
  proof (cases "RemoteLogFilter env (block_number (group_heap manager grp) + 1)
                  (GetSmartcontractAddresses manager)")
    case None
    then show ?thesis by (simp add: categorize_old_round_def Let_def)
  next
    case (Some all_logs)
    then show ?thesis by (simp add: categorize_old_round_def Let_def w)
  qed
qed

lemma addresses_set:
  "set (GetSmartcontractAddresses manager) =
     (\<Union>g\<in>set (old_categorizers manager). (\<lambda>w. Address (smartcontract w)) ` set (workers (group_heap manager g)))
     \<union> (\<lambda>w. Address (smartcontract w)) ` set (current_workers manager)"
  by (auto simp add: GetSmartcontractAddresses_def workers_GetSmartcontractAddresses_def)

lemma round_cases:
  assumes "categorize_old_round env grp manager = (fl, manager')"
  obtains (failed) "RemoteLogFilter env (block_number (group_heap manager grp) + 1)
              (GetSmartcontractAddresses manager) = None"
            "fl = Next"
            "manager' = manager\<lparr>remote_calls := remote_calls manager
                @ [(block_number (group_heap manager grp) + 1, GetSmartcontractAddresses manager)]\<rparr>"
  | (fetched) all_logs wfl ws to sent where
      "RemoteLogFilter env (block_number (group_heap manager grp) + 1)
              (GetSmartcontractAddresses manager) = Some all_logs"
      "categorize_old_workers env all_logs (workers (group_heap manager grp))
          (block_number (group_heap manager grp) + 1) (pusher manager) = (wfl, ws, to, sent)"
      "wfl = Panic \<longrightarrow> fl = Panic \<and> group_heap manager' grp = (group_heap manager grp)\<lparr>workers := ws\<rparr>
          \<and> current_workers manager' = current_workers manager"
      "wfl \<noteq> Panic \<longrightarrow> fl \<noteq> Panic \<and> group_heap manager' grp = \<lparr>block_number = to, workers = ws\<rparr>
          \<and> (fl = Break \<longleftrightarrow> subscribed_earliest_block_number manager \<le> to)
          \<and> current_workers manager' = (if fl = Break then current_workers manager @ ws else current_workers manager)"
      "old_categorizers manager' = old_categorizers manager"
      "subscribed_earliest_block_number manager' = subscribed_earliest_block_number manager"
      "pusher manager' = sent"
proof (cases "RemoteLogFilter env (block_number (group_heap manager grp) + 1)
              (GetSmartcontractAddresses manager)")
  case None
  with assms failed show ?thesis
    by (auto simp add: categorize_old_round_def Let_def)
next
  case (Some all_logs)
  obtain wfl ws to sent where
    w: "categorize_old_workers env all_logs (workers (group_heap manager grp))
          (block_number (group_heap manager grp) + 1) (pusher manager) = (wfl, ws, to, sent)"
    by (cases "categorize_old_workers env all_logs (workers (group_heap manager grp))
          (block_number (group_heap manager grp) + 1) (pusher manager)") auto
  show ?thesis
  proof (rule fetched [OF Some w])
    show "wfl = Panic \<longrightarrow> fl = Panic \<and> group_heap manager' grp = (group_heap manager grp)\<lparr>workers := ws\<rparr>
          \<and> current_workers manager' = current_workers manager"
      using assms Some w by (auto simp add: categorize_old_round_def Let_def)
    show "wfl \<noteq> Panic \<longrightarrow> fl \<noteq> Panic \<and> group_heap manager' grp = \<lparr>block_number = to, workers = ws\<rparr>
          \<and> (fl = Break \<longleftrightarrow> subscribed_earliest_block_number manager \<le> to)
          \<and> current_workers manager' = (if fl = Break then current_workers manager @ ws else current_workers manager)"
      using assms Some w
      by (auto simp add: categorize_old_round_def Let_def add_current_workers_def split: if_splits)
    show "old_categorizers manager' = old_categorizers manager"
      using assms Some w
      by (auto simp add: categorize_old_round_def Let_def add_current_workers_def split: if_splits)
    show "subscribed_earliest_block_number manager' = subscribed_earliest_block_number manager"
      using assms Some w
      by (auto simp add: categorize_old_round_def Let_def add_current_workers_def split: if_splits)
    show "pusher manager' = sent"
      using assms Some w
      by (auto simp add: categorize_old_round_def Let_def add_current_workers_def split: if_splits)
  qed
qed




lemma old_workers_env_cong:
  "categorize env' = categorize env \<Longrightarrow> SendMessage env' = SendMessage env \<Longrightarrow>
   categorize_old_workers env' all_logs ws to sent = categorize_old_workers env all_logs ws to sent"
  by (induction ws arbitrary: to sent) (simp_all add: Let_def split: prod.splits)

lemma round_fetch_cong:
  assumes "RemoteLogFilter env' (block_number (group_heap manager grp) + 1)
             (GetSmartcontractAddresses manager)
           = RemoteLogFilter env (block_number (group_heap manager grp) + 1)
             (GetSmartcontractAddresses manager)"
      and "categorize env' = categorize env" and "SendMessage env' = SendMessage env"
  shows "categorize_old_round env' grp manager = categorize_old_round env grp manager"
proof (cases "RemoteLogFilter env (block_number (group_heap manager grp) + 1)
                  (GetSmartcontractAddresses manager)")
  case None
  with assms(1) show ?thesis by (simp add: categorize_old_round_def Let_def)
next
  case (Some all_logs)
  with assms(1) old_workers_env_cong [OF assms(2,3)] show ?thesis
    by (simp add: categorize_old_round_def Let_def)
qed

subsection \<open>The run of the engine\<close>




subsection \<open>The run of the dispatcher\<close>


subsection \<open>Evaluation of the samples\<close>

lemmas sample_defs = categorize_old_round_def catchup_manager_def chain_env_def always_delivers_def never_delivers_def
  log_at_def NewManager_def NewGroup_def new_worker_def GetSmartcontractAddresses_def
  workers_GetSmartcontractAddresses_def Let_def FilterByAddress_def categorize_logs_def
  add_current_workers_def Delete_def GetForSmartcontract_def categorize_current_block_def NewBlock_def



subsection \<open>Promotion\<close>




subsection \<open>The cursor after an iteration\<close>

text \<open>
  C2, as amended. An iteration whose fetch fails goes on to the next one with the group
  as it was, and an iteration that panics leaves the cursor as it was. After an
  iteration whose fetch succeeded and that did not panic: if no worker of the group has
  a log in the reply, the cursor is the from-block of the request, one more than
  before; otherwise it is the block number \<open>categorize\<close> returned for the last
  worker, in the group's order, that has a log in the reply.
\<close>

theorem cursor_after_round:
  assumes r: "categorize_old_round env grp manager = (fl, manager')"
  shows "(RemoteLogFilter env (block_number (group_heap manager grp) + 1)
            (GetSmartcontractAddresses manager) = None \<longrightarrow>
          fl = Next \<and> group_heap manager' = group_heap manager)
       \<and> (fl = Panic \<longrightarrow>
          block_number (group_heap manager' grp) = block_number (group_heap manager grp))
       \<and> (RemoteLogFilter env (block_number (group_heap manager grp) + 1)
            (GetSmartcontractAddresses manager) = Some all_logs \<and> fl \<noteq> Panic \<longrightarrow>
          ((\<forall>w\<in>set (workers (group_heap manager grp)).
              FilterByAddress all_logs (Address (smartcontract w)) = []) \<longrightarrow>
            block_number (group_heap manager' grp) = block_number (group_heap manager grp) + 1)
        \<and> (workers (group_heap manager grp) = pre @ w # post
              \<and> FilterByAddress all_logs (Address (smartcontract w)) \<noteq> []
              \<and> (\<forall>v\<in>set post. FilterByAddress all_logs (Address (smartcontract v)) = []) \<longrightarrow>
            block_number (group_heap manager' grp)
              = snd (categorize env w (FilterByAddress all_logs (Address (smartcontract w))))))"
  using r
proof (cases rule: round_cases)
  case failed
  then show ?thesis by simp
next
  case (fetched logs' wfl ws to sent)
  show ?thesis
  proof (intro conjI impI)
    assume "RemoteLogFilter env (block_number (group_heap manager grp) + 1)
            (GetSmartcontractAddresses manager) = None"
    with fetched(1) show "fl = Next" "group_heap manager' = group_heap manager" by simp_all
  next
    assume p: "fl = Panic"
    with fetched(4) have "wfl = Panic" by blast
    with fetched(3)
    show "block_number (group_heap manager' grp) = block_number (group_heap manager grp)"
      by simp
  next
    assume f: "RemoteLogFilter env (block_number (group_heap manager grp) + 1)
            (GetSmartcontractAddresses manager) = Some all_logs \<and> fl \<noteq> Panic"
    assume "\<forall>w\<in>set (workers (group_heap manager grp)).
              FilterByAddress all_logs (Address (smartcontract w)) = []"
    from old_workers_no_logs [OF this] fetched(1,2) f
    have "wfl = Next" "to = block_number (group_heap manager grp) + 1" by simp_all
    with fetched(4)
    show "block_number (group_heap manager' grp) = block_number (group_heap manager grp) + 1"
      by simp
  next
    assume f: "RemoteLogFilter env (block_number (group_heap manager grp) + 1)
            (GetSmartcontractAddresses manager) = Some all_logs \<and> fl \<noteq> Panic"
    assume a: "workers (group_heap manager grp) = pre @ w # post
              \<and> FilterByAddress all_logs (Address (smartcontract w)) \<noteq> []
              \<and> (\<forall>v\<in>set post. FilterByAddress all_logs (Address (smartcontract v)) = [])"
    from fetched(1) f have logs: "logs' = all_logs" by simp
    from fetched(3) f have nw: "wfl \<noteq> Panic" by blast
    with fetched(4) have cursor: "block_number (group_heap manager' grp) = to" by simp
    have "to = snd (categorize env w (FilterByAddress all_logs (Address (smartcontract w))))"
      using old_workers_last [of env all_logs pre w post _ _ wfl ws to sent] fetched(2) logs nw a
      by simp
    with cursor show "block_number (group_heap manager' grp)
              = snd (categorize env w (FilterByAddress all_logs (Address (smartcontract w))))"
      by simp
  qed
qed

text \<open>
  With \<open>a\<close> at 140 and \<open>b\<close> at 120 the cursor of group 0 becomes what \<open>b\<close>,
  the last worker, returned; group 1 has no log and its cursor goes from 90 to 91; with
  the historical source down the groups stay as they are; and when the result channel
  fails the round panics with the cursor still at 100.
\<close>

theorem cursor_after_round_witness:
  "fst (categorize_old_round (chain_env staggered_logs always_delivers) 0 catchup_manager) \<noteq> Panic
   \<and> workers (group_heap catchup_manager 0) = [new_worker ''a'' 100] @ new_worker ''b'' 100 # []
   \<and> block_number (group_heap (snd (categorize_old_round (chain_env staggered_logs always_delivers) 0
          catchup_manager)) 0)
        = snd (categorize_logs (new_worker ''b'' 100) [log_at ''b'' 120])
   \<and> fst (categorize_old_round (chain_env staggered_logs always_delivers) 1 catchup_manager) \<noteq> Panic
   \<and> block_number (group_heap (snd (categorize_old_round (chain_env staggered_logs always_delivers) 1
          catchup_manager)) 1) = 90 + 1
   \<and> group_heap (snd (categorize_old_round
          ((chain_env [] always_delivers)\<lparr>RemoteLogFilter := (\<lambda>from addresses. None)\<rparr>) 0
          catchup_manager)) = group_heap catchup_manager
   \<and> fst (categorize_old_round (chain_env staggered_logs never_delivers) 0 catchup_manager) = Panic
   \<and> block_number (group_heap (snd (categorize_old_round (chain_env staggered_logs never_delivers) 0
          catchup_manager)) 0) = 100"
proof -
  let ?env = "chain_env staggered_logs always_delivers"
  let ?down = "(chain_env [] always_delivers)\<lparr>RemoteLogFilter := (\<lambda>from addresses. None)\<rparr>"
  let ?deaf = "chain_env staggered_logs never_delivers"
  obtain fl m where r: "categorize_old_round ?env 0 catchup_manager = (fl, m)"
    by (cases "categorize_old_round ?env 0 catchup_manager")
  obtain fl1 m1 where r1: "categorize_old_round ?env 1 catchup_manager = (fl1, m1)"
    by (cases "categorize_old_round ?env 1 catchup_manager")
  obtain fl2 m2 where r2: "categorize_old_round ?down 0 catchup_manager = (fl2, m2)"
    by (cases "categorize_old_round ?down 0 catchup_manager")
  obtain fl3 m3 where r3: "categorize_old_round ?deaf 0 catchup_manager = (fl3, m3)"
    by (cases "categorize_old_round ?deaf 0 catchup_manager")
  have np: "fl \<noteq> Panic" "fl1 \<noteq> Panic" "fl3 = Panic"
    using r r1 r3 by (auto simp add: staggered_logs_def sample_defs)
  have f: "RemoteLogFilter ?env (block_number (group_heap catchup_manager 0) + 1)
             (GetSmartcontractAddresses catchup_manager) = Some staggered_logs"
    by (simp add: staggered_logs_def sample_defs)
  have f1: "RemoteLogFilter ?env (block_number (group_heap catchup_manager 1) + 1)
             (GetSmartcontractAddresses catchup_manager) = Some staggered_logs"
    by (simp add: staggered_logs_def sample_defs)
  have f2: "RemoteLogFilter ?down (block_number (group_heap catchup_manager 0) + 1)
             (GetSmartcontractAddresses catchup_manager) = None"
    by simp
  have ws: "workers (group_heap catchup_manager 0) = [new_worker ''a'' 100] @ new_worker ''b'' 100 # []"
    "workers (group_heap catchup_manager 1) = [new_worker ''c'' 90]"
    "block_number (group_heap catchup_manager 1) = 90"
    "block_number (group_heap catchup_manager 0) = 100"
    by (simp_all add: sample_defs)
  have logs: "FilterByAddress staggered_logs (Address (smartcontract (new_worker ''b'' 100))) = [log_at ''b'' 120]"
    "FilterByAddress staggered_logs (Address (smartcontract (new_worker ''c'' 90))) = []"
    by (simp_all add: staggered_logs_def sample_defs)
  have cat: "categorize ?env = categorize_logs"
    by (simp add: chain_env_def)
  show ?thesis
    using cursor_after_round [OF r, of staggered_logs "[new_worker ''a'' 100]" "new_worker ''b'' 100" "[]"]
      cursor_after_round [OF r1, of staggered_logs]
      cursor_after_round [OF r2]
      cursor_after_round [OF r3]
      r r1 r2 r3 np f f1 f2 ws logs cat
    by simp
qed

text \<open>
  C2 as stated fails: \<open>a\<close> reached block 140 and \<open>b\<close> block 120, and the cursor is
  120, not the maximum; and with no log fetched the cursor moves from 100 to 101.
\<close>

theorem cursor_not_maximum_counterexample:
  "block_number (group_heap (snd (categorize_old_round (chain_env staggered_logs always_delivers) 0
       catchup_manager)) 0) = 120
   \<and> map (\<lambda>w. CategorizedBlockNumber (smartcontract w))
        (workers (group_heap (snd (categorize_old_round (chain_env staggered_logs always_delivers) 0
           catchup_manager)) 0)) = [140, 120]
   \<and> block_number (group_heap catchup_manager 0) = 100
   \<and> RemoteLogFilter (chain_env [] always_delivers) 101 (GetSmartcontractAddresses catchup_manager) = Some []
   \<and> block_number (group_heap (snd (categorize_old_round (chain_env [] always_delivers) 0
       catchup_manager)) 0) = 101"
  by (simp add: staggered_logs_def sample_defs)

subsection \<open>The historical fetch\<close>

text \<open>
  C5, as amended. An iteration of the engine makes one \<open>RemoteLogFilter\<close> request,
  whose from-block is the group's cursor plus one (with the wrap-around of 64 bits),
  and its outcome does not depend on what the historical source would answer to any
  other request.
\<close>

theorem fetch_from_cursor_plus_one:
  "map fst (remote_calls (snd (categorize_old_round env grp manager)))
     = map fst (remote_calls manager) @ [block_number (group_heap manager grp) + 1]
   \<and> categorize_old_round env grp manager =
       categorize_old_round
         (env\<lparr>RemoteLogFilter := (\<lambda>from addresses.
             if from = block_number (group_heap manager grp) + 1
                \<and> addresses = GetSmartcontractAddresses manager
             then RemoteLogFilter env from addresses else other from addresses)\<rparr>) grp manager"
proof -
  obtain fl manager' where r: "categorize_old_round env grp manager = (fl, manager')"
    by (cases "categorize_old_round env grp manager")
  from round_remote_calls [OF r] r
  have "map fst (remote_calls (snd (categorize_old_round env grp manager)))
     = map fst (remote_calls manager) @ [block_number (group_heap manager grp) + 1]"
    by simp
  with round_only_asks_request [of env grp manager other] show ?thesis by simp
qed

text \<open>
  C5 as stated fails: the group created at block 100 asks for the logs from block 101.
\<close>

theorem fetch_from_cursor_counterexample:
  "group_heap catchup_manager 0 = NewGroup 100 [new_worker ''a'' 100, new_worker ''b'' 100]
   \<and> block_number (group_heap catchup_manager 0) = 100
   \<and> map fst (remote_calls (snd (categorize_old_round (chain_env [] always_delivers) 0
        catchup_manager))) = [101]"
  by (simp add: sample_defs)

text \<open>
  C6, as amended. The addresses of the request are those \<open>GetSmartcontractAddresses\<close>
  returns for the manager, and the outcome of the iteration does not depend on what the
  historical source would answer for any other list of addresses. That list holds the
  addresses of the workers of every group in \<open>old_categorizers\<close>, group after
  group, followed by those of the current workers: the addresses of the group's own
  workers are in it when the group is in \<open>old_categorizers\<close>, and so are those of
  every other group there and of the current workers.
\<close>

theorem fetch_addresses_of_all_workers:
  "map snd (remote_calls (snd (categorize_old_round env grp manager)))
     = map snd (remote_calls manager) @ [GetSmartcontractAddresses manager]
   \<and> categorize_old_round env grp manager =
       categorize_old_round
         (env\<lparr>RemoteLogFilter := (\<lambda>from addresses.
             if addresses = GetSmartcontractAddresses manager
             then RemoteLogFilter env from addresses else other from addresses)\<rparr>) grp manager
   \<and> GetSmartcontractAddresses manager =
       concat (map (\<lambda>g. map (\<lambda>w. Address (smartcontract w)) (workers (group_heap manager g)))
                 (old_categorizers manager))
       @ map (\<lambda>w. Address (smartcontract w)) (current_workers manager)
   \<and> (grp \<in> set (old_categorizers manager) \<longrightarrow>
        (\<lambda>w. Address (smartcontract w)) ` set (workers (group_heap manager grp))
          \<subseteq> set (GetSmartcontractAddresses manager))
   \<and> (g \<in> set (old_categorizers manager) \<longrightarrow>
        (\<lambda>w. Address (smartcontract w)) ` set (workers (group_heap manager g))
          \<subseteq> set (GetSmartcontractAddresses manager))
   \<and> (\<lambda>w. Address (smartcontract w)) ` set (current_workers manager)
        \<subseteq> set (GetSmartcontractAddresses manager)"
proof -
  obtain fl manager' where r: "categorize_old_round env grp manager = (fl, manager')"
    by (cases "categorize_old_round env grp manager")
  from round_remote_calls [OF r] r
  have calls: "map snd (remote_calls (snd (categorize_old_round env grp manager)))
     = map snd (remote_calls manager) @ [GetSmartcontractAddresses manager]"
    by simp
  have asked: "categorize_old_round env grp manager =
       categorize_old_round
         (env\<lparr>RemoteLogFilter := (\<lambda>from addresses.
             if addresses = GetSmartcontractAddresses manager
             then RemoteLogFilter env from addresses else other from addresses)\<rparr>) grp manager"
    by (rule round_fetch_cong [symmetric]) simp_all
  have list: "GetSmartcontractAddresses manager =
       concat (map (\<lambda>g. map (\<lambda>w. Address (smartcontract w)) (workers (group_heap manager g)))
                 (old_categorizers manager))
       @ map (\<lambda>w. Address (smartcontract w)) (current_workers manager)"
    by (simp add: GetSmartcontractAddresses_def workers_GetSmartcontractAddresses_def)
  have members: "\<And>h. h \<in> set (old_categorizers manager) \<Longrightarrow>
        (\<lambda>w. Address (smartcontract w)) ` set (workers (group_heap manager h))
          \<subseteq> set (GetSmartcontractAddresses manager)"
    by (auto simp add: addresses_set)
  have live: "(\<lambda>w. Address (smartcontract w)) ` set (current_workers manager)
        \<subseteq> set (GetSmartcontractAddresses manager)"
    by (auto simp add: addresses_set)
  from calls asked list members live show ?thesis by blast
qed

text \<open>
  Groups 0 and 1 are both in \<open>old_categorizers\<close>; the request of either names
  \<open>a\<close> and \<open>b\<close>, of group 0, and \<open>c\<close>, of group 1.
\<close>

theorem fetch_addresses_of_all_workers_witness:
  "0 \<in> set (old_categorizers catchup_manager)
   \<and> (\<lambda>w. Address (smartcontract w)) ` set (workers (group_heap catchup_manager 0)) = {''a'', ''b''}
   \<and> GetSmartcontractAddresses catchup_manager = [''a'', ''b'', ''c'', ''d'']
   \<and> {''a'', ''b''} \<subseteq> set (GetSmartcontractAddresses catchup_manager)
   \<and> 1 \<in> set (old_categorizers catchup_manager)
   \<and> (\<lambda>w. Address (smartcontract w)) ` set (workers (group_heap catchup_manager 1)) = {''c''}
   \<and> {''c''} \<subseteq> set (GetSmartcontractAddresses catchup_manager)"
proof -
  have m0: "0 \<in> set (old_categorizers catchup_manager)"
    and m1: "1 \<in> set (old_categorizers catchup_manager)"
    and w0: "(\<lambda>w. Address (smartcontract w)) ` set (workers (group_heap catchup_manager 0))
               = {''a'', ''b''}"
    and w1: "(\<lambda>w. Address (smartcontract w)) ` set (workers (group_heap catchup_manager 1)) = {''c''}"
    and l: "GetSmartcontractAddresses catchup_manager = [''a'', ''b'', ''c'', ''d'']"
    by (simp_all add: sample_defs)
  note all = fetch_addresses_of_all_workers [of "chain_env [] always_delivers" 0 catchup_manager
      "\<lambda>from addresses. None" 1]
  from all m0 have "(\<lambda>w. Address (smartcontract w)) ` set (workers (group_heap catchup_manager 0))
      \<subseteq> set (GetSmartcontractAddresses catchup_manager)"
    by blast
  then have s0: "{''a'', ''b''} \<subseteq> set (GetSmartcontractAddresses catchup_manager)"
    by (simp only: w0)
  from all m1 have "(\<lambda>w. Address (smartcontract w)) ` set (workers (group_heap catchup_manager 1))
      \<subseteq> set (GetSmartcontractAddresses catchup_manager)"
    by blast
  then have s1: "{''c''} \<subseteq> set (GetSmartcontractAddresses catchup_manager)"
    by (simp only: w1)
  from m0 m1 w0 w1 l s0 s1 show ?thesis by blast
qed

text \<open>
  C6 as stated fails: group 0 has the workers \<open>a\<close> and \<open>b\<close>, and its request also
  names \<open>c\<close>, of group 1, and \<open>d\<close>, a current worker.
\<close>

theorem fetch_addresses_counterexample:
  "workers_GetSmartcontractAddresses (workers (group_heap catchup_manager 0)) = [''a'', ''b'']
   \<and> map snd (remote_calls (snd (categorize_old_round (chain_env [] always_delivers) 0
        catchup_manager))) = [[''a'', ''b'', ''c'', ''d'']]"
  by (simp add: sample_defs)

subsection \<open>A failed delivery\<close>




subsection \<open>The dispatcher on a block without logs\<close>

text \<open>
  C3, at the failing input. Block 151 has no log of \<open>d\<close>, whose watermark is 150.
  The dispatcher still sends a request for \<open>d\<close>, with no logs in it; the claim has a
  result published only when a log was applied, as the engine's loop does.
\<close>

theorem dispatcher_publishes_without_logs:
  "GetForSmartcontract quiet_block_151 ''d'' = []
   \<and> current_workers catchup_manager = [new_worker ''d'' 150]
   \<and> pusher catchup_manager = []
   \<and> categorize_current_block (chain_env [] always_delivers) quiet_block_151 catchup_manager
       = (Next, catchup_manager\<lparr>pusher :=
            [\<lparr>push_smartcontracts = [\<lparr>Address = ''d'', CategorizedBlockNumber = 150\<rparr>],
              push_logs = []\<rparr>]\<rparr>)"
  by (simp add: quiet_block_151_def sample_defs)

section \<open>Properties of the messages\<close>

subsection \<open>Validation and encoding of a Reply\<close>

lemma valid_reply_iff:
  "valid_reply reply \<longleftrightarrow> valid_fail reply = None \<and> valid_status reply = None"
  by (auto simp add: valid_reply_def valid_fail_def valid_status_def)

lemma Reply_ToBytes_Inr:
  "Reply_ToBytes pkg reply = Inr bytes \<longleftrightarrow>
     valid_reply reply \<and> (\<exists>kv. NewFromInterface_Reply pkg reply = Inr kv \<and> ToBytes pkg kv = Inr bytes)"
  by (auto simp add: Reply_ToBytes_def valid_reply_iff split: option.splits sum.splits)

lemma Reply_ToString_Inr:
  "Reply_ToString pkg reply = Inr bytes \<longleftrightarrow> Reply_ToBytes pkg reply = Inr bytes"
  by (simp add: Reply_ToString_def split: sum.splits)

lemma ParseJsonReply_round:
  assumes "lossless pkg" and "Reply_ToBytes pkg reply = Inr bytes"
      and "NewFromInterface_Reply pkg reply = Inr kv"
  shows "ParseJsonReply pkg kv = Inr reply"
proof -
  from assms(1,3) have "ToInterface_Reply pkg kv = Inr reply"
    unfolding lossless_def by blast
  with assms(2) show ?thesis by (simp add: ParseJsonReply_def)
qed

lemma ParseReply_round:
  assumes l: "lossless pkg" and e: "Reply_ToString pkg reply = Inr wire"
  shows "ParseReply pkg [wire] = Inr reply"
proof -
  from e have b: "Reply_ToBytes pkg reply = Inr wire" by (simp add: Reply_ToString_Inr)
  then obtain kv where kv: "NewFromInterface_Reply pkg reply = Inr kv" "ToBytes pkg kv = Inr wire"
    by (auto simp add: Reply_ToBytes_Inr)
  from l have s: "ToString pkg [wire] = wire" unfolding lossless_def by blast
  from l kv(2) have d: "NewFromString pkg wire = Inr kv" unfolding lossless_def by blast
  from ParseJsonReply_round [OF l b kv(1)] s d show ?thesis
    by (simp add: ParseReply_def)
qed

subsection \<open>The first brace\<close>

lemma Index_none: "Index msg c = - 1 \<longleftrightarrow> c \<notin> set msg"
  and Index_nonneg: "- 1 \<le> Index msg c"
  by (induction msg) (auto simp add: Let_def)

lemma Index_drop:
  "c \<in> set msg \<Longrightarrow> drop (nat (Index msg c)) msg = dropWhile (\<lambda>x. x \<noteq> c) msg"
proof (induction msg)
  case Nil
  then show ?case by simp
next
  case (Cons x xs)
  show ?case
  proof (cases "x = c")
    case True
    then show ?thesis by simp
  next
    case False
    with Cons.prems have in_xs: "c \<in> set xs" by simp
    then have "Index xs c \<noteq> - 1" by (simp add: Index_none)
    with Index_nonneg [of xs c] have "0 \<le> Index xs c" by linarith
    then have "nat (Index xs c + 1) = Suc (nat (Index xs c))" by simp
    with False in_xs Cons.IH \<open>Index xs c \<noteq> - 1\<close> show ?thesis by (simp add: Let_def)
  qed
qed

lemma ParseBroadcast_unfold:
  "ParseBroadcast pkg msgs =
     (if CHR ''{'' \<notin> set (ToString pkg msgs)
      then Inl (Failure (''invalid broadcast message '' @ ToString pkg msgs
                          @ '', no distinction between topic and reply''))
      else
        (case NewFromString pkg (dropWhile (\<lambda>x. x \<noteq> CHR ''{'') (ToString pkg msgs)) of
           Inl err \<Rightarrow> Inl (Errorf ''key_value.NewFromString'' err)
         | Inr dat \<Rightarrow>
        (case GetString pkg dat ''topic'' of
           Inl err \<Rightarrow> Inl (Errorf ''broadcast.GetString(`topic`)'' err)
         | Inr topic \<Rightarrow>
        (case GetKeyValue pkg dat ''reply'' of
           Inl err \<Rightarrow> Inl (Errorf ''broadcast.GetKeyValue(`reply`)'' err)
         | Inr raw_reply \<Rightarrow>
        (case ParseJsonReply pkg raw_reply of
           Inl err \<Rightarrow> Inl (Errorf ''ParseJsonReply'' err)
         | Inr reply \<Rightarrow> Inr \<lparr>Reply = reply, Topic = topic\<rparr>)))))"
proof (cases "CHR ''{'' \<in> set (ToString pkg msgs)")
  case True
  then have "Index (ToString pkg msgs) CHR ''{'' \<noteq> - 1" by (simp add: Index_none)
  with True Index_drop [OF True] show ?thesis
    by (simp add: ParseBroadcast_def Let_def)
next
  case False
  then have "Index (ToString pkg msgs) CHR ''{'' = - 1" by (simp add: Index_none)
  with False show ?thesis by (simp add: ParseBroadcast_def Let_def)
qed

lemma dropWhile_prefix:
  "c \<notin> set p \<Longrightarrow> dropWhile (\<lambda>x. x \<noteq> c) (p @ c # body) = c # body"
  by (induction p) auto

lemma ParseBroadcast_round:
  assumes l: "lossless pkg" and r: "Reply_ToString pkg (Reply b) = Inr rwire"
      and k: "NewFromInterface_Broadcast pkg b = Inr bkv" and w: "ToBytes pkg bkv = Inr bwire"
  shows "Broadcast_ToBytes pkg b = bwire" and "ParseBroadcast pkg [bwire] = Inr b"
proof -
  show "Broadcast_ToBytes pkg b = bwire" using k w by (simp add: Broadcast_ToBytes_def)
  from l have s: "ToString pkg [bwire] = bwire" unfolding lossless_def by blast
  from l w obtain rest where d: "NewFromString pkg bwire = Inr bkv" and br: "bwire = CHR ''{'' # rest"
    unfolding lossless_def by blast
  from l k obtain raw where t: "GetString pkg bkv ''topic'' = Inr (Topic b)"
      and g: "GetKeyValue pkg bkv ''reply'' = Inr raw" and i: "ToInterface_Reply pkg raw = Inr (Reply b)"
    unfolding lossless_def by blast
  from r have rb: "Reply_ToBytes pkg (Reply b) = Inr rwire" by (simp add: Reply_ToString_Inr)
  with i have p: "ParseJsonReply pkg raw = Inr (Reply b)" by (simp add: ParseJsonReply_def)
  have dw: "dropWhile (\<lambda>x. x \<noteq> CHR ''{'') bwire = bwire" using br by simp
  have mem: "CHR ''{'' \<in> set bwire" using br by simp
  show "ParseBroadcast pkg [bwire] = Inr b"
    using s d t g p dw mem by (simp add: ParseBroadcast_unfold)
qed

lemma broadcast_json_iff:
  "CHR ''{'' \<in> set (ToString pkg msgs) \<Longrightarrow>
   isl (ParseBroadcast pkg msgs)
     \<longleftrightarrow> \<not> broadcast_json pkg (dropWhile (\<lambda>x. x \<noteq> CHR ''{'') (ToString pkg msgs))"
  by (simp add: ParseBroadcast_unfold broadcast_json_def split: sum.splits)

subsection \<open>The sample package loses nothing\<close>

lemma fields_field:
  "CHR '';'' \<notin> set f \<Longrightarrow> fields cur (f @ CHR '';'' # rest) = (rev cur @ f) # fields [] rest"
  by (induction f arbitrary: cur) auto

lemma fields_concat:
  "list_all (\<lambda>f. CHR '';'' \<notin> set f) kv \<Longrightarrow> fields [] (concat (map (\<lambda>f. f @ '';'') kv)) = kv"
  by (induction kv) (auto simp add: fields_field)

lemma lossless_sample: "lossless sample_package"
  unfolding lossless_def
proof (intro conjI allI impI)
  fix s :: string
  show "ToString sample_package [s] = s" by (simp add: sample_package_def)
next
  fix kv bytes
  assume "ToBytes sample_package kv = Inr bytes"
  then have ok: "list_all (\<lambda>f. CHR '';'' \<notin> set f) kv"
      and b: "bytes = CHR ''{'' # concat (map (\<lambda>f. f @ '';'') kv)"
    by (auto simp add: sample_package_def sample_ToBytes_def split: if_splits)
  from b fields_concat [OF ok] show "NewFromString sample_package bytes = Inr kv"
    by (simp add: sample_package_def sample_NewFromString_def)
  from b show "\<exists>rest. bytes = CHR ''{'' # rest" by simp
next
  fix reply :: "string list Reply" and kv
  assume "NewFromInterface_Reply sample_package reply = Inr kv"
  then show "ToInterface_Reply sample_package kv = Inr reply"
    by (auto simp add: sample_package_def sample_ToInterface_Reply_def)
next
  fix b :: "string list Broadcast" and kv
  assume a: "NewFromInterface_Broadcast sample_package b = Inr kv"
  then show "GetString sample_package kv ''topic'' = Inr (Topic b)"
    by (auto simp add: sample_package_def sample_GetString_def)
  from a show "\<exists>raw. GetKeyValue sample_package kv ''reply'' = Inr raw
        \<and> ToInterface_Reply sample_package raw = Inr (Reply b)"
    by (auto simp add: sample_package_def sample_GetKeyValue_def sample_ToInterface_Reply_def)
qed

lemmas sample_package_defs = sample_package_def sample_ToBytes_def sample_NewFromString_def
  sample_ToInterface_Reply_def sample_GetString_def sample_GetKeyValue_def block_reply_def
  failed_reply_def Fail_def OK_def FAIL_def NewBroadcast_def

subsection \<open>Round trip\<close>

text \<open>
  C9. On a package that loses nothing: a Reply that \<open>ToString\<close> encodes satisfies the
  wire shape and \<open>ParseReply\<close> of the encoding is that Reply, with the same status,
  message and parameters; a Reply of the wire shape is encoded whenever the package
  encodes it; and for a Broadcast whose Reply encodes, \<open>ParseBroadcast\<close> of its
  \<open>ToBytes\<close> is that Broadcast, with the same topic and reply.
\<close>

theorem wire_round_trip:
  assumes "lossless pkg"
  shows "(Reply_ToString pkg reply = Inr wire \<longrightarrow>
            valid_reply reply \<and> ParseReply pkg [wire] = Inr reply)
       \<and> (valid_reply reply \<and> NewFromInterface_Reply pkg reply = Inr kv \<and> ToBytes pkg kv = Inr wire \<longrightarrow>
            Reply_ToString pkg reply = Inr wire)
       \<and> (Reply_ToString pkg (Reply b) = Inr rwire \<and> NewFromInterface_Broadcast pkg b = Inr bkv
            \<and> ToBytes pkg bkv = Inr bwire \<longrightarrow>
            Broadcast_ToBytes pkg b = bwire \<and> ParseBroadcast pkg [bwire] = Inr b)"
proof (intro conjI impI)
  assume e: "Reply_ToString pkg reply = Inr wire"
  then show "valid_reply reply" by (simp add: Reply_ToString_Inr Reply_ToBytes_Inr)
  from ParseReply_round [OF assms e] show "ParseReply pkg [wire] = Inr reply" .
next
  assume "valid_reply reply \<and> NewFromInterface_Reply pkg reply = Inr kv \<and> ToBytes pkg kv = Inr wire"
  then show "Reply_ToString pkg reply = Inr wire"
    by (auto simp add: Reply_ToString_Inr Reply_ToBytes_Inr)
next
  assume a: "Reply_ToString pkg (Reply b) = Inr rwire \<and> NewFromInterface_Broadcast pkg b = Inr bkv
            \<and> ToBytes pkg bkv = Inr bwire"
  then show "Broadcast_ToBytes pkg b = bwire" using ParseBroadcast_round(1) [OF assms] by blast
  from a show "ParseBroadcast pkg [bwire] = Inr b" using ParseBroadcast_round(2) [OF assms] by blast
qed

text \<open>
  The sample package loses nothing; the block announcement and the failure go through
  the wire and come back, the failure inside a Broadcast of topic \<open>eth\<close>.
\<close>

theorem wire_round_trip_witness:
  "lossless sample_package
   \<and> Reply_ToString sample_package block_reply = Inr ''{OK;;150;eth;''
   \<and> valid_reply block_reply
   \<and> ParseReply sample_package [''{OK;;150;eth;''] = Inr block_reply
   \<and> valid_reply failed_reply
   \<and> Reply_ToString sample_package failed_reply = Inr ''{fail;no such block;''
   \<and> Broadcast_ToBytes sample_package (NewBroadcast ''eth'' failed_reply) = ''{eth;fail;no such block;''
   \<and> ParseBroadcast sample_package [''{eth;fail;no such block;''] = Inr (NewBroadcast ''eth'' failed_reply)"
proof -
  have e1: "Reply_ToString sample_package block_reply = Inr ''{OK;;150;eth;''"
    by (simp add: Reply_ToString_def Reply_ToBytes_def valid_fail_def valid_status_def
        sample_package_defs)
  have v2: "valid_reply failed_reply"
    by (simp add: valid_reply_def sample_package_defs)
  have k2: "NewFromInterface_Reply sample_package failed_reply = Inr [''fail'', ''no such block'']"
    "ToBytes sample_package [''fail'', ''no such block''] = Inr ''{fail;no such block;''"
    by (simp_all add: sample_package_defs)
  have b2: "NewFromInterface_Broadcast sample_package (NewBroadcast ''eth'' failed_reply)
        = Inr [''eth'', ''fail'', ''no such block'']"
    "ToBytes sample_package [''eth'', ''fail'', ''no such block''] = Inr ''{eth;fail;no such block;''"
    "Reply (NewBroadcast ''eth'' failed_reply) = failed_reply"
    by (simp_all add: sample_package_defs)
  show ?thesis
    using wire_round_trip [OF lossless_sample, where reply = block_reply and wire = "''{OK;;150;eth;''"]
      wire_round_trip [OF lossless_sample, where reply = failed_reply
        and kv = "[''fail'', ''no such block'']" and wire = "''{fail;no such block;''"
        and b = "NewBroadcast ''eth'' failed_reply" and rwire = "''{fail;no such block;''"
        and bkv = "[''eth'', ''fail'', ''no such block'']" and bwire = "''{eth;fail;no such block;''"]
      lossless_sample e1 v2 k2 b2
    by simp
qed

subsection \<open>\<open>ParseBroadcast\<close> reads from the first brace\<close>

text \<open>
  C10. Two messages whose text is the same from the first opening brace on parse to the
  same result, whatever stands before the brace; the Topic of a parsed Broadcast is the
  string under \<open>topic\<close> in the key-value decoded from the text that starts at the
  first brace; and \<open>ParseBroadcast\<close> returns an error exactly when the text has no
  brace or the text from the first brace on is not a broadcast with a valid reply.
\<close>

theorem ParseBroadcast_from_first_brace:
  "(CHR ''{'' \<notin> set p \<and> CHR ''{'' \<notin> set q
      \<and> ToString pkg msgs1 = p @ CHR ''{'' # body \<and> ToString pkg msgs2 = q @ CHR ''{'' # body \<longrightarrow>
      ParseBroadcast pkg msgs1 = ParseBroadcast pkg msgs2)
   \<and> (ParseBroadcast pkg msgs = Inr b \<longrightarrow>
        (\<exists>dat. NewFromString pkg (dropWhile (\<lambda>x. x \<noteq> CHR ''{'') (ToString pkg msgs)) = Inr dat
            \<and> GetString pkg dat ''topic'' = Inr (Topic b)))
   \<and> (isl (ParseBroadcast pkg msgs) \<longleftrightarrow>
        CHR ''{'' \<notin> set (ToString pkg msgs)
        \<or> \<not> broadcast_json pkg (dropWhile (\<lambda>x. x \<noteq> CHR ''{'') (ToString pkg msgs)))"
proof (intro conjI impI)
  assume a: "CHR ''{'' \<notin> set p \<and> CHR ''{'' \<notin> set q
      \<and> ToString pkg msgs1 = p @ CHR ''{'' # body \<and> ToString pkg msgs2 = q @ CHR ''{'' # body"
  then have "dropWhile (\<lambda>x. x \<noteq> CHR ''{'') (ToString pkg msgs1) = CHR ''{'' # body"
    and "dropWhile (\<lambda>x. x \<noteq> CHR ''{'') (ToString pkg msgs2) = CHR ''{'' # body"
    by (simp_all add: dropWhile_prefix)
  moreover from a have "CHR ''{'' \<in> set (ToString pkg msgs1)" "CHR ''{'' \<in> set (ToString pkg msgs2)"
    by simp_all
  ultimately show "ParseBroadcast pkg msgs1 = ParseBroadcast pkg msgs2"
    by (simp add: ParseBroadcast_unfold)
next
  assume "ParseBroadcast pkg msgs = Inr b"
  then show "\<exists>dat. NewFromString pkg (dropWhile (\<lambda>x. x \<noteq> CHR ''{'') (ToString pkg msgs)) = Inr dat
            \<and> GetString pkg dat ''topic'' = Inr (Topic b)"
    by (auto simp add: ParseBroadcast_unfold split: if_splits sum.splits)
next
  show "isl (ParseBroadcast pkg msgs) \<longleftrightarrow>
        CHR ''{'' \<notin> set (ToString pkg msgs)
        \<or> \<not> broadcast_json pkg (dropWhile (\<lambda>x. x \<noteq> CHR ''{'') (ToString pkg msgs))"
  proof (cases "CHR ''{'' \<in> set (ToString pkg msgs)")
    case True
    with broadcast_json_iff [OF True] show ?thesis by simp
  next
    case False
    then show ?thesis by (simp add: ParseBroadcast_unfold)
  qed
qed

text \<open>
  The same body parses alike behind the prefixes \<open>eth\<close> and \<open>some other prefix\<close>;
  behind the prefix \<open>bsc\<close> the topic is still the body's \<open>eth\<close>; a message
  without a brace, a body whose reply fails with no message and a body cut short are
  errors.
\<close>

theorem ParseBroadcast_from_first_brace_witness:
  "ParseBroadcast sample_package [''eth '', ''{eth;OK;;150;eth;'']
     = ParseBroadcast sample_package [''some other prefix'', ''{eth;OK;;150;eth;'']
   \<and> ParseBroadcast sample_package [''bsc '', ''{eth;OK;;150;eth;'']
       = Inr (NewBroadcast ''eth'' block_reply)
   \<and> isl (ParseBroadcast sample_package [''eth ''])
   \<and> isl (ParseBroadcast sample_package [''eth {eth;fail;;''])
   \<and> isl (ParseBroadcast sample_package [''eth {eth''])"
proof -
  have s: "ToString sample_package [''eth '', ''{eth;OK;;150;eth;''] = ''eth '' @ CHR ''{'' # ''eth;OK;;150;eth;''"
    "ToString sample_package [''some other prefix'', ''{eth;OK;;150;eth;'']
       = ''some other prefix'' @ CHR ''{'' # ''eth;OK;;150;eth;''"
    "ToString sample_package [''eth ''] = ''eth ''"
    "ToString sample_package [''eth {eth;fail;;''] = ''eth {eth;fail;;''"
    "ToString sample_package [''eth {eth''] = ''eth {eth''"
    by (simp_all add: sample_package_def)
  have p: "ParseBroadcast sample_package [''bsc '', ''{eth;OK;;150;eth;'']
       = Inr (NewBroadcast ''eth'' block_reply)"
    by (simp add: ParseBroadcast_def ParseJsonReply_def Reply_ToBytes_def valid_fail_def
        valid_status_def Let_def sample_package_defs)
  have j: "\<not> broadcast_json sample_package ''{eth;fail;;''"
    "\<not> broadcast_json sample_package ''{eth''"
    by (simp_all add: broadcast_json_def ParseJsonReply_def Reply_ToBytes_def valid_fail_def
        valid_status_def sample_package_defs)
  show ?thesis
    using ParseBroadcast_from_first_brace [where pkg = sample_package and p = "''eth ''"
        and q = "''some other prefix''" and body = "''eth;OK;;150;eth;''"
        and ?msgs1.0 = "[''eth '', ''{eth;OK;;150;eth;'']"
        and ?msgs2.0 = "[''some other prefix'', ''{eth;OK;;150;eth;'']"
        and msgs = "[''eth '']"]
      ParseBroadcast_from_first_brace [where pkg = sample_package and msgs = "[''eth {eth;fail;;'']"]
      ParseBroadcast_from_first_brace [where pkg = sample_package and msgs = "[''eth {eth'']"]
      s p j
    by simp
qed

end
